theory Spec2Isabelle
  imports Main "HOL-Library.Sublist"
begin

section \<open>Go strings and the two functions of package \<open>strings\<close> the adapter calls\<close>

text \<open>
  A Go string is a sequence of bytes; \<open>string\<close> (a list of 8-bit \<open>char\<close>) is the same
  thing. \<open>strings.HasPrefix(s, prefix)\<close> is
  \<^verbatim>\<open>len(s) >= len(prefix) && s[:len(prefix)] == prefix\<close>.
\<close>

definition HasPrefix :: "string \<Rightarrow> string \<Rightarrow> bool" where
  "HasPrefix s pre = (length pre \<le> length s \<and> take (length pre) s = pre)"

text \<open>
  \<open>strings.TrimSpace\<close> removes leading and trailing white space as Unicode defines it
  (\<open>unicode.IsSpace\<close>): U+0009..U+000D, U+0020, U+0085, U+00A0, U+1680, U+2000..U+200A,
  U+2028, U+2029, U+202F, U+205F and U+3000. Go decodes the string as UTF-8; a byte
  sequence that is not the (shortest) UTF-8 encoding of a rune decodes to the error rune,
  which is not white space. So a white-space rune stands at the start (end) of the string
  exactly when one of the encodings below is a prefix (suffix) of its bytes.
\<close>

definition spaceEncodings :: "nat list list" where
  "spaceEncodings =
    [[0x09], [0x0A], [0x0B], [0x0C], [0x0D], [0x20],
     [0xC2, 0x85], [0xC2, 0xA0],
     [0xE1, 0x9A, 0x80],
     [0xE2, 0x80, 0x80], [0xE2, 0x80, 0x81], [0xE2, 0x80, 0x82], [0xE2, 0x80, 0x83],
     [0xE2, 0x80, 0x84], [0xE2, 0x80, 0x85], [0xE2, 0x80, 0x86], [0xE2, 0x80, 0x87],
     [0xE2, 0x80, 0x88], [0xE2, 0x80, 0x89], [0xE2, 0x80, 0x8A],
     [0xE2, 0x80, 0xA8], [0xE2, 0x80, 0xA9], [0xE2, 0x80, 0xAF],
     [0xE2, 0x81, 0x9F],
     [0xE3, 0x80, 0x80]]"

text \<open>The width in bytes of the white-space rune at the start of \<open>s\<close>; 0 when there is none.\<close>

definition leadingSpace :: "string \<Rightarrow> nat" where
  "leadingSpace s =
     (let bs = map of_char s in
      case find (\<lambda>e. take (length e) bs = e) spaceEncodings of
        None \<Rightarrow> 0
      | Some e \<Rightarrow> length e)"

text \<open>The width in bytes of the white-space rune at the end of \<open>s\<close>; 0 when there is none.\<close>

definition trailingSpace :: "string \<Rightarrow> nat" where
  "trailingSpace s =
     (let bs = map of_char s in
      case find (\<lambda>e. length e \<le> length bs \<and> drop (length bs - length e) bs = e) spaceEncodings of
        None \<Rightarrow> 0
      | Some e \<Rightarrow> length e)"

function TrimLeftSpace :: "string \<Rightarrow> string" where
  "TrimLeftSpace s =
     (if leadingSpace s = 0 then s else TrimLeftSpace (drop (leadingSpace s) s))"
  by pat_completeness auto
termination
proof (relation "measure length")
  show "wf (measure length)" by simp
next
  fix s :: string
  assume nz: "leadingSpace s \<noteq> 0"
  then have "s \<noteq> []"
    by (auto simp: leadingSpace_def spaceEncodings_def)
  with nz show "(drop (leadingSpace s) s, s) \<in> measure length" by simp
qed

function TrimRightSpace :: "string \<Rightarrow> string" where
  "TrimRightSpace s =
     (if trailingSpace s = 0 then s else TrimRightSpace (take (length s - trailingSpace s) s))"
  by pat_completeness auto
termination
proof (relation "measure length")
  show "wf (measure length)" by simp
next
  fix s :: string
  assume nz: "trailingSpace s \<noteq> 0"
  then have "s \<noteq> []"
    by (auto simp: trailingSpace_def spaceEncodings_def)
  with nz show "(take (length s - trailingSpace s) s, s) \<in> measure length" by simp
qed

declare TrimLeftSpace.simps [simp del] TrimRightSpace.simps [simp del]

definition TrimSpace :: "string \<Rightarrow> string" where
  "TrimSpace s = TrimRightSpace (TrimLeftSpace s)"

section \<open>Data model\<close>

text \<open>A Go \<open>error\<close> value, identified by its message; \<open>nil\<close> is \<open>None\<close> of \<open>error option\<close>.\<close>

datatype error = Error string

text \<open>\<open>autoscan.Rewrite\<close>, one rewrite rule of the configuration.\<close>

record Rewrite =
  From :: string
  To :: string

record Config =
  URL :: string
  Token :: string
  UserID :: string
  Library :: string
  PreciseRefresh :: bool
  Rewrite :: "Rewrite list"
  Verbosity :: string

text \<open>
  Modelled from the spec: the declaration of type \<open>library\<close> is not in the source file;
  the spec gives it as a name and a root path, and the code reads exactly the fields
  \<open>Name\<close> and \<open>Path\<close>.
\<close>

record library =
  Name :: string
  Path :: string

text \<open>\<open>autoscan.Scan\<close>, the incoming event; the adapter reads its \<open>Folder\<close> only.\<close>

record scan =
  Folder :: string

text \<open>
  \<open>zerolog\<close>: a logger carries the context fields added with \<open>With()\<close>; a logging call
  has a level, the logger's context followed by the call's own fields, and a message.
\<close>

datatype level = TraceLevel | DebugLevel | InfoLevel | WarnLevel | ErrorLevel

datatype field = Str string string | Err error

type_synonym logger = "field list"

text \<open>
  What a run does to the outside: every call of the remote API client, with its
  arguments and what it returned, and every logging call, in the order they happen.
\<close>

datatype event =
    CallLibraries "library list \<times> error option"
  | CallAvailable "error option"
  | CallGetViewID string string "string \<times> error option"
  | CallFindItemIDByPath string string string "string \<times> error option"
  | CallRefreshItem string "error option"
  | CallScan string "error option"
  | Log level "field list" string

text \<open>
  The remote API client. Its type and methods are declared outside the source file, so
  the client is a parameter: each method is any function of the state \<open>'w\<close> of the remote
  side (server, connection) that returns the method's Go results and the next state. A
  Go result pair \<open>(string, error)\<close> is a pair here too.
\<close>

record 'w apiClient =
  api_Libraries :: "'w \<Rightarrow> (library list \<times> error option) \<times> 'w"
  api_Available :: "'w \<Rightarrow> error option \<times> 'w"
  api_GetViewID :: "string \<Rightarrow> string \<Rightarrow> 'w \<Rightarrow> (string \<times> error option) \<times> 'w"
  api_FindItemIDByPath :: "string \<Rightarrow> string \<Rightarrow> string \<Rightarrow> 'w \<Rightarrow> (string \<times> error option) \<times> 'w"
  api_RefreshItem :: "string \<Rightarrow> 'w \<Rightarrow> error option \<times> 'w"
  api_Scan :: "string \<Rightarrow> 'w \<Rightarrow> error option \<times> 'w"

text \<open>
  \<open>type target struct\<close>. The rewriter \<open>autoscan.Rewriter\<close> is a function from string to
  string. \<open>New\<close> fills \<open>libraries\<close> with what \<open>api.Libraries()\<close> returned at construction;
  nothing in the source file assigns to a field afterwards.
\<close>

record 'w target =
  cfg :: Config
  libraries :: "library list"
  log :: logger
  rewrite :: "string \<Rightarrow> string"
  api :: "'w apiClient"

text \<open>
  The program state: the adapter instance the dispatcher holds (\<open>self\<close>), the state of
  the remote side, and the events so far.
\<close>

record 'w state =
  self :: "'w target"
  remote :: 'w
  trace :: "event list"

section \<open>Operations\<close>

text \<open>A logging call \<open>lg.Level().fields.Msg(msg)\<close>.\<close>

definition logMsg :: "level \<Rightarrow> field list \<Rightarrow> string \<Rightarrow> 'w state \<Rightarrow> 'w state" where
  "logMsg lv fs msg s = s\<lparr>trace := trace s @ [Log lv fs msg]\<rparr>"

text \<open>The calls \<open>t.api.M(args)\<close>: run the client's method on the remote state, record the call.\<close>

definition call_Available :: "'w target \<Rightarrow> 'w state \<Rightarrow> error option \<times> 'w state" where
  "call_Available t s =
     (case api_Available (api t) (remote s) of
        (r, w) \<Rightarrow> (r, s\<lparr>remote := w, trace := trace s @ [CallAvailable r]\<rparr>))"

definition call_GetViewID ::
  "'w target \<Rightarrow> string \<Rightarrow> string \<Rightarrow> 'w state \<Rightarrow> (string \<times> error option) \<times> 'w state" where
  "call_GetViewID t user libraryName s =
     (case api_GetViewID (api t) user libraryName (remote s) of
        (r, w) \<Rightarrow> (r, s\<lparr>remote := w, trace := trace s @ [CallGetViewID user libraryName r]\<rparr>))"

definition call_FindItemIDByPath ::
  "'w target \<Rightarrow> string \<Rightarrow> string \<Rightarrow> string \<Rightarrow> 'w state \<Rightarrow> (string \<times> error option) \<times> 'w state" where
  "call_FindItemIDByPath t user viewID path s =
     (case api_FindItemIDByPath (api t) user viewID path (remote s) of
        (r, w) \<Rightarrow>
          (r, s\<lparr>remote := w, trace := trace s @ [CallFindItemIDByPath user viewID path r]\<rparr>))"

definition call_RefreshItem :: "'w target \<Rightarrow> string \<Rightarrow> 'w state \<Rightarrow> error option \<times> 'w state" where
  "call_RefreshItem t itemID s =
     (case api_RefreshItem (api t) itemID (remote s) of
        (r, w) \<Rightarrow> (r, s\<lparr>remote := w, trace := trace s @ [CallRefreshItem itemID r]\<rparr>))"

definition call_Scan :: "'w target \<Rightarrow> string \<Rightarrow> 'w state \<Rightarrow> error option \<times> 'w state" where
  "call_Scan t path s =
     (case api_Scan (api t) path (remote s) of
        (r, w) \<Rightarrow> (r, s\<lparr>remote := w, trace := trace s @ [CallScan path r]\<rparr>))"

text \<open>\<open>func (t target) Available() error\<close>\<close>

definition Available :: "'w state \<Rightarrow> error option \<times> 'w state" where
  "Available s = call_Available (self s) s"

text \<open>
  \<open>func (t target) getScanLibrary(folder string) (*library, error)\<close>: the loop over
  \<open>t.libraries\<close>, returning at the first library whose \<open>Path\<close> is a prefix of the folder;
  after the loop, the error \<open>fmt.Errorf("%v: failed determining library", folder)\<close>. The Go
  result is \<open>(&l, nil)\<close> or \<open>(nil, err)\<close>: \<open>Inr l\<close> or \<open>Inl err\<close>.
\<close>

fun getScanLibrary_loop :: "library list \<Rightarrow> string \<Rightarrow> library option" where
  "getScanLibrary_loop [] folder = None"
| "getScanLibrary_loop (l # ls) folder =
     (if HasPrefix folder (Path l) then Some l else getScanLibrary_loop ls folder)"

definition getScanLibrary :: "'w target \<Rightarrow> string \<Rightarrow> error + library" where
  "getScanLibrary t folder =
     (case getScanLibrary_loop (libraries t) folder of
        Some l \<Rightarrow> Inr l
      | None \<Rightarrow> Inl (Error (folder @ '': failed determining library'')))"

text \<open>
  \<open>func (t target) Scan(scan autoscan.Scan) error\<close>, in three parts.

  The last statements of \<open>Scan\<close>, reached when precise refresh is off or has not returned:
  the trace message, \<open>t.api.Scan(scanFolder)\<close>, its error returned if it is not \<open>nil\<close>,
  else the info message and \<open>nil\<close>.
\<close>

definition fallbackScan :: "'w target \<Rightarrow> logger \<Rightarrow> string \<Rightarrow> 'w state \<Rightarrow> error option \<times> 'w state" where
  "fallbackScan t l scanFolder s =
     (case call_Scan t scanFolder
             (logMsg TraceLevel l
                ''Sending library scan request (fallback or precise_refresh disabled)'' s) of
        (Some err, s1) \<Rightarrow> (Some err, s1)
      | (None, s1) \<Rightarrow> (None, logMsg InfoLevel l ''Scan moved to target'' s1))"

text \<open>
  The library name whose view is looked up:
  \<^verbatim>\<open>libraryName := t.cfg.Library; if strings.TrimSpace(libraryName) == "" { libraryName = lib.Name }\<close>
\<close>

definition libraryName :: "'w target \<Rightarrow> library \<Rightarrow> string" where
  "libraryName t lib =
     (if TrimSpace (Library (cfg t)) = [] then Name lib else Library (cfg t))"

text \<open>
  The body of \<open>if t.cfg.PreciseRefresh { ... }\<close>. The result is \<open>True\<close> when the body
  returns \<open>nil\<close> from \<open>Scan\<close> (item refreshed), \<open>False\<close> when control leaves the body and
  goes on to the library scan.
\<close>

definition preciseRefresh ::
  "'w target \<Rightarrow> logger \<Rightarrow> library \<Rightarrow> string \<Rightarrow> 'w state \<Rightarrow> bool \<times> 'w state" where
  "preciseRefresh t l lib scanFolder s =
     (let s0 = logMsg TraceLevel l ''Trying precise Jellyfin refresh by itemId'' s
      in case call_GetViewID t (UserID (cfg t)) (libraryName t lib) s0 of
           ((viewID, Some vErr), s1) \<Rightarrow>
             (False, logMsg WarnLevel (l @ [Err vErr, Str ''library'' (libraryName t lib)])
                ''Cannot resolve Jellyfin viewId; falling back to library scan'' s1)
         | ((viewID, None), s1) \<Rightarrow>
             (case call_FindItemIDByPath t (UserID (cfg t)) viewID scanFolder s1 of
                ((itemID, Some fErr), s2) \<Rightarrow>
                  (False, logMsg WarnLevel (l @ [Err fErr, Str ''path'' scanFolder])
                     ''Cannot match Jellyfin item by exact Path; falling back to library scan'' s2)
              | ((itemID, None), s2) \<Rightarrow>
                  (if TrimSpace itemID \<noteq> [] then
                     (case call_RefreshItem t itemID s2 of
                        (Some rErr, s3) \<Rightarrow>
                          (False, logMsg ErrorLevel (l @ [Err rErr, Str ''itemId'' itemID])
                             ''Jellyfin item refresh failed; falling back to library scan'' s3)
                      | (None, s3) \<Rightarrow>
                          (True, logMsg InfoLevel (l @ [Str ''itemId'' itemID])
                             ''Refreshed Jellyfin item recursively (precise refresh)'' s3))
                   else (False, s2))))"

text \<open>
  \<open>Scan\<close> has a value receiver: \<open>t\<close> is a copy of the instance, made at the call.
\<close>

definition Scan :: "'w state \<Rightarrow> scan \<Rightarrow> error option \<times> 'w state" where
  "Scan s scan =
     (let t = self s;
          scanFolder = rewrite t (Folder scan)
      in case getScanLibrary t scanFolder of
           Inl err \<Rightarrow> (None, logMsg WarnLevel (log t @ [Err err]) ''No target libraries found'' s)
         | Inr lib \<Rightarrow>
             (let l = log t @ [Str ''path'' scanFolder, Str ''library'' (Name lib)] in
              if PreciseRefresh (cfg t) then
                (case preciseRefresh t l lib scanFolder s of
                   (True, s') \<Rightarrow> (None, s')
                 | (False, s') \<Rightarrow> fallbackScan t l scanFolder s')
              else fallbackScan t l scanFolder s))"

section \<open>Observations on a run\<close>

text \<open>The events one invocation of \<open>Scan\<close> adds to the trace, and the API calls among them.\<close>

definition emitted :: "'w state \<Rightarrow> scan \<Rightarrow> event list" where
  "emitted s scan = drop (length (trace s)) (trace (snd (Scan s scan)))"

fun isCall :: "event \<Rightarrow> bool" where
  "isCall (Log lv fs msg) = False"
| "isCall e = True"

definition calls :: "event list \<Rightarrow> event list" where
  "calls es = filter isCall es"

text \<open>
  The events of the precise path and the logging calls: everything but the calls of
  \<open>Scan\<close>, \<open>Libraries\<close> and \<open>Available\<close>.
\<close>

fun quietEvent :: "event \<Rightarrow> bool" where
  "quietEvent (CallGetViewID user name r) = True"
| "quietEvent (CallFindItemIDByPath user viewID path r) = True"
| "quietEvent (CallRefreshItem itemID r) = True"
| "quietEvent (Log lv fs msg) = True"
| "quietEvent e = False"

text \<open>Serving a sequence of events, one invocation of \<open>Scan\<close> after the other.\<close>

fun ScanAll :: "'w state \<Rightarrow> scan list \<Rightarrow> 'w state" where
  "ScanAll s [] = s"
| "ScanAll s (ev # evs) = ScanAll (snd (Scan s ev)) evs"

section \<open>A concrete adapter, for running the model\<close>

text \<open>
  A client whose four results are fixed in advance; the remote state counts the requests
  it has served. The libraries and the folder are those of the spec's scenarios. The
  rewriter maps the watcher's \<open>/mnt/media\<close> to the remote \<open>/data\<close>.
\<close>

definition demoClient ::
  "string \<times> error option \<Rightarrow> string \<times> error option \<Rightarrow> error option \<Rightarrow> error option \<Rightarrow>
   nat apiClient" where
  "demoClient v f r sc =
     \<lparr>api_Libraries = (\<lambda>w. (([], None), Suc w)),
      api_Available = (\<lambda>w. (None, Suc w)),
      api_GetViewID = (\<lambda>user name w. (v, Suc w)),
      api_FindItemIDByPath = (\<lambda>user viewID path w. (f, Suc w)),
      api_RefreshItem = (\<lambda>itemID w. (r, Suc w)),
      api_Scan = (\<lambda>path w. (sc, Suc w))\<rparr>"

definition demoLibraries :: "library list" where
  "demoLibraries =
     [\<lparr>Name = ''Movies'', Path = ''/data/movies''\<rparr>, \<lparr>Name = ''TV'', Path = ''/data/tv''\<rparr>]"

definition nestedLibraries :: "library list" where
  "nestedLibraries =
     [\<lparr>Name = ''All'', Path = ''/data''\<rparr>, \<lparr>Name = ''TV'', Path = ''/data/tv''\<rparr>]"

definition demoRewrite :: "string \<Rightarrow> string" where
  "demoRewrite p =
     (if HasPrefix p ''/mnt/media'' then ''/data'' @ drop (length ''/mnt/media'') p else p)"

definition demoTarget :: "string \<Rightarrow> bool \<Rightarrow> library list \<Rightarrow> nat apiClient \<Rightarrow> nat target" where
  "demoTarget override precise libs client =
     \<lparr>cfg = \<lparr>URL = ''http://jellyfin'', Token = ''secret'', UserID = ''u1'',
             Library = override, PreciseRefresh = precise, Rewrite = [], Verbosity = []\<rparr>,
      libraries = libs,
      log = [Str ''target'' ''jellyfin'', Str ''url'' ''http://jellyfin''],
      rewrite = demoRewrite,
      api = client\<rparr>"

definition demoState :: "nat target \<Rightarrow> nat state" where
  "demoState t = \<lparr>self = t, remote = 0, trace = []\<rparr>"

definition demoEvent :: scan where
  "demoEvent = \<lparr>Folder = ''/mnt/media/movies/Inception''\<rparr>"

section \<open>Library resolution\<close>

lemma HasPrefix_prefix: "HasPrefix s p = prefix p s"
proof
  assume "HasPrefix s p"
  then have "take (length p) s = p" by (simp add: HasPrefix_def)
  then have "s = p @ drop (length p) s" by (metis append_take_drop_id)
  then show "prefix p s" by (rule prefixI)
next
  assume "prefix p s"
  then obtain r where "s = p @ r" by (auto simp: prefix_def)
  then show "HasPrefix s p" by (simp add: HasPrefix_def)
qed

lemma getScanLibrary_loop_find:
  "getScanLibrary_loop ls folder = find (\<lambda>l. prefix (Path l) folder) ls"
  by (induction ls) (simp_all add: HasPrefix_prefix)

lemma getScanLibrary_Inr_iff:
  "getScanLibrary t p = Inr l \<longleftrightarrow>
     (\<exists>i<length (libraries t). libraries t ! i = l \<and> prefix (Path l) p \<and>
        (\<forall>j<i. \<not> prefix (Path (libraries t ! j)) p))"
proof -
  have "getScanLibrary t p = Inr l \<longleftrightarrow> find (\<lambda>l. prefix (Path l) p) (libraries t) = Some l"
    by (simp add: getScanLibrary_def getScanLibrary_loop_find split: option.splits)
  also have "\<dots> \<longleftrightarrow> (\<exists>i<length (libraries t). libraries t ! i = l \<and> prefix (Path l) p \<and>
        (\<forall>j<i. \<not> prefix (Path (libraries t ! j)) p))"
    unfolding find_Some_iff by blast
  finally show ?thesis .
qed

lemma getScanLibrary_Inl_iff:
  "getScanLibrary t p = Inl e \<longleftrightarrow>
     (\<forall>l\<in>set (libraries t). \<not> prefix (Path l) p) \<and>
     e = Error (p @ '': failed determining library'')"
proof -
  have "getScanLibrary t p = Inl e \<longleftrightarrow>
      find (\<lambda>l. prefix (Path l) p) (libraries t) = None \<and>
      e = Error (p @ '': failed determining library'')"
    by (auto simp add: getScanLibrary_def getScanLibrary_loop_find split: option.splits)
  then show ?thesis
    unfolding find_None_iff by blast
qed

section \<open>The shape of a run of \<open>Scan\<close>\<close>

lemmas steps = logMsg_def call_GetViewID_def call_FindItemIDByPath_def call_RefreshItem_def
  call_Scan_def

lemma fallbackScan_run:
  "fallbackScan t l sf s =
     (fst (api_Scan (api t) sf (remote s)),
      s\<lparr>remote := snd (api_Scan (api t) sf (remote s)),
        trace := trace s @
          [Log TraceLevel l ''Sending library scan request (fallback or precise_refresh disabled)'',
           CallScan sf (fst (api_Scan (api t) sf (remote s)))] @
          (case fst (api_Scan (api t) sf (remote s)) of
             None \<Rightarrow> [Log InfoLevel l ''Scan moved to target'']
           | Some err \<Rightarrow> [])\<rparr>)"
  by (simp add: fallbackScan_def steps split: prod.splits option.splits)

lemma quiet_no_Scan: "list_all quietEvent es \<Longrightarrow> CallScan p r \<notin> set es"
  by (auto simp: list_all_iff)

lemma quiet_no_Libraries: "list_all quietEvent es \<Longrightarrow> CallLibraries r \<notin> set es"
  by (auto simp: list_all_iff)

lemma preciseRefresh_frame_aux:
  assumes "api_GetViewID (api t) (UserID (cfg t)) (libraryName t lib) (remote s) = ((viewID, vErr), w1)"
    and "api_FindItemIDByPath (api t) (UserID (cfg t)) viewID sf w1 = ((itemID, fErr), w2)"
    and "api_RefreshItem (api t) itemID w2 = (rErr, w3)"
  shows "\<exists>es. trace (snd (preciseRefresh t l lib sf s)) =
             trace s @ Log TraceLevel l ''Trying precise Jellyfin refresh by itemId'' #
               CallGetViewID (UserID (cfg t)) (libraryName t lib) (viewID, vErr) # es \<and>
           list_all quietEvent es \<and>
           self (snd (preciseRefresh t l lib sf s)) = self s"
  using assms
  by (cases vErr; cases fErr; cases rErr) (simp_all add: preciseRefresh_def steps)

lemma preciseRefresh_frame:
  "\<exists>r es. trace (snd (preciseRefresh t l lib sf s)) =
             trace s @ Log TraceLevel l ''Trying precise Jellyfin refresh by itemId'' #
               CallGetViewID (UserID (cfg t)) (libraryName t lib) r # es \<and>
           list_all quietEvent es \<and>
           self (snd (preciseRefresh t l lib sf s)) = self s"
proof -
  obtain viewID vErr w1 where
    a: "api_GetViewID (api t) (UserID (cfg t)) (libraryName t lib) (remote s) = ((viewID, vErr), w1)"
    by (metis surj_pair)
  obtain itemID fErr w2 where
    b: "api_FindItemIDByPath (api t) (UserID (cfg t)) viewID sf w1 = ((itemID, fErr), w2)"
    by (metis surj_pair)
  obtain rErr w3 where c: "api_RefreshItem (api t) itemID w2 = (rErr, w3)"
    by (metis surj_pair)
  from preciseRefresh_frame_aux [OF a b c] show ?thesis by blast
qed

lemma fallbackScan_frame:
  "\<exists>tl. trace (snd (fallbackScan t l sf s)) =
          trace s @ Log TraceLevel l
            ''Sending library scan request (fallback or precise_refresh disabled)'' #
            CallScan sf (fst (fallbackScan t l sf s)) # tl \<and>
        list_all quietEvent tl \<and>
        self (snd (fallbackScan t l sf s)) = self s"
  by (simp add: fallbackScan_run split: option.splits)

text \<open>The shape of every run of Scan.\<close>

lemma Scan_frame:
  "\<exists>es. trace (snd (Scan s ev)) = trace s @ es \<and>
        self (snd (Scan s ev)) = self s \<and>
        (list_all quietEvent es \<and> fst (Scan s ev) = None \<or>
         (\<exists>es' tl. es = es' @ CallScan (rewrite (self s) (Folder ev)) (fst (Scan s ev)) # tl \<and>
            list_all quietEvent es' \<and> list_all quietEvent tl))"
proof (cases "getScanLibrary (self s) (rewrite (self s) (Folder ev))")
  case (Inl err)
  then show ?thesis
    by (simp add: Scan_def Let_def logMsg_def)
next
  case (Inr lib)
  let ?t = "self s"
  let ?sf = "rewrite (self s) (Folder ev)"
  let ?l = "log ?t @ [Str ''path'' ?sf, Str ''library'' (Name lib)]"
  show ?thesis
  proof (cases "PreciseRefresh (cfg (self s))")
    case False
    obtain tl where tl: "trace (snd (fallbackScan ?t ?l ?sf s)) =
          trace s @ Log TraceLevel ?l
            ''Sending library scan request (fallback or precise_refresh disabled)'' #
            CallScan ?sf (fst (fallbackScan ?t ?l ?sf s)) # tl"
      "list_all quietEvent tl" "self (snd (fallbackScan ?t ?l ?sf s)) = self s"
      using fallbackScan_frame [of ?t ?l ?sf s] by blast
    have eq: "Scan s ev = fallbackScan ?t ?l ?sf s"
      using Inr False by (simp add: Scan_def Let_def)
    have "trace (snd (Scan s ev)) = trace s @
        [Log TraceLevel ?l ''Sending library scan request (fallback or precise_refresh disabled)''] @
        CallScan ?sf (fst (Scan s ev)) # tl"
      unfolding eq using tl(1) by simp
    moreover have "list_all quietEvent
        [Log TraceLevel ?l ''Sending library scan request (fallback or precise_refresh disabled)'']"
      by simp
    moreover have "self (snd (Scan s ev)) = self s"
      unfolding eq by (rule tl(3))
    ultimately show ?thesis
      using tl(2) by blast
  next
    case True
    obtain b s' where p: "preciseRefresh ?t ?l lib ?sf s = (b, s')"
      by (cases "preciseRefresh ?t ?l lib ?sf s")
    obtain r es where es: "trace s' =
             trace s @ Log TraceLevel ?l ''Trying precise Jellyfin refresh by itemId'' #
               CallGetViewID (UserID (cfg ?t)) (libraryName ?t lib) r # es"
      "list_all quietEvent es" "self s' = self s"
      using preciseRefresh_frame [of ?t ?l lib ?sf s] unfolding p by auto
    show ?thesis
    proof (cases b)
      case True
      have eq: "Scan s ev = (None, s')"
        using Inr \<open>PreciseRefresh (cfg (self s))\<close> p True by (simp add: Scan_def Let_def)
      show ?thesis
        unfolding eq using es by simp
    next
      case False
      have eq: "Scan s ev = fallbackScan ?t ?l ?sf s'"
        using Inr \<open>PreciseRefresh (cfg (self s))\<close> p False by (simp add: Scan_def Let_def)
      obtain tl where tl: "trace (snd (fallbackScan ?t ?l ?sf s')) =
          trace s' @ Log TraceLevel ?l
            ''Sending library scan request (fallback or precise_refresh disabled)'' #
            CallScan ?sf (fst (fallbackScan ?t ?l ?sf s')) # tl"
        "list_all quietEvent tl" "self (snd (fallbackScan ?t ?l ?sf s')) = self s'"
        using fallbackScan_frame [of ?t ?l ?sf s'] by blast
      let ?es' = "Log TraceLevel ?l ''Trying precise Jellyfin refresh by itemId'' #
               CallGetViewID (UserID (cfg ?t)) (libraryName ?t lib) r # es @
          [Log TraceLevel ?l ''Sending library scan request (fallback or precise_refresh disabled)'']"
      have "trace (snd (Scan s ev)) = trace s @ ?es' @ CallScan ?sf (fst (Scan s ev)) # tl"
        unfolding eq using tl(1) es(1) by simp
      moreover have "list_all quietEvent ?es'"
        using es(2) by simp
      moreover have "self (snd (Scan s ev)) = self s"
        unfolding eq using tl(3) es(3) by simp
      ultimately show ?thesis
        using tl(2) by blast
    qed
  qed
qed

lemma Scan_trace: "trace (snd (Scan s ev)) = trace s @ emitted s ev"
  using Scan_frame [of s ev] by (auto simp: emitted_def)

lemma Scan_self: "self (snd (Scan s ev)) = self s"
  using Scan_frame [of s ev] by blast

lemma Scan_no_Libraries: "CallLibraries r \<notin> set (emitted s ev)"
proof -
  obtain es where es: "trace (snd (Scan s ev)) = trace s @ es"
    and shape: "list_all quietEvent es \<and> fst (Scan s ev) = None \<or>
         (\<exists>es' tl. es = es' @ CallScan (rewrite (self s) (Folder ev)) (fst (Scan s ev)) # tl \<and>
            list_all quietEvent es' \<and> list_all quietEvent tl)"
    using Scan_frame [of s ev] by blast
  have em: "emitted s ev = es"
    using es by (simp add: emitted_def)
  from shape show ?thesis
  proof
    assume "list_all quietEvent es \<and> fst (Scan s ev) = None"
    then show ?thesis
      unfolding em using quiet_no_Libraries [of es r] by simp
  next
    assume "\<exists>es' tl. es = es' @ CallScan (rewrite (self s) (Folder ev)) (fst (Scan s ev)) # tl \<and>
            list_all quietEvent es' \<and> list_all quietEvent tl"
    then obtain es' tl where
      "es = es' @ CallScan (rewrite (self s) (Folder ev)) (fst (Scan s ev)) # tl"
      "list_all quietEvent es'" "list_all quietEvent tl"
      by blast
    then show ?thesis
      unfolding em using quiet_no_Libraries [of es' r] quiet_no_Libraries [of tl r] by simp
  qed
qed

lemma ScanAll_frame:
  "self (ScanAll s evs) = self s \<and>
   (\<exists>es. trace (ScanAll s evs) = trace s @ es \<and> (\<forall>r. CallLibraries r \<notin> set es))"
proof (induction evs arbitrary: s)
  case Nil
  show ?case by simp
next
  case (Cons ev evs)
  let ?s1 = "snd (Scan s ev)"
  from Cons.IH [of ?s1] obtain es where
    a: "self (ScanAll ?s1 evs) = self ?s1"
    and b: "trace (ScanAll ?s1 evs) = trace ?s1 @ es"
    and c: "\<forall>r. CallLibraries r \<notin> set es"
    by blast
  have "trace (ScanAll s (ev # evs)) = trace s @ (emitted s ev @ es)"
    using b by (simp add: Scan_trace)
  moreover have "\<forall>r. CallLibraries r \<notin> set (emitted s ev @ es)"
    using c Scan_no_Libraries [of _ s ev] by simp
  moreover have "self (ScanAll s (ev # evs)) = self s"
    using a by (simp add: Scan_self)
  ultimately show ?case by blast
qed

section \<open>Facts about the concrete adapter\<close>

lemma demo_rewrite:
  "rewrite (self (demoState (demoTarget override precise libs client))) (Folder demoEvent) =
     ''/data/movies/Inception''"
  by (simp add: demoState_def demoTarget_def demoRewrite_def demoEvent_def HasPrefix_def)

lemma demo_library:
  "getScanLibrary (self (demoState (demoTarget override precise demoLibraries client)))
     ''/data/movies/Inception'' = Inr \<lparr>Name = ''Movies'', Path = ''/data/movies''\<rparr>"
  by (simp add: getScanLibrary_def demoState_def demoTarget_def demoLibraries_def HasPrefix_def)

lemma demo_precise:
  "PreciseRefresh (cfg (self (demoState (demoTarget override precise libs client)))) = precise"
  by (simp add: demoState_def demoTarget_def)

lemma demo_user:
  "UserID (cfg (self (demoState (demoTarget override precise libs client)))) = ''u1''"
  by (simp add: demoState_def demoTarget_def)

lemma TrimSpace_empty: "TrimSpace [] = []"
  by code_simp

lemma TrimSpace_42: "TrimSpace ''42'' = ''42''"
  by code_simp

lemma TrimSpace_blank: "TrimSpace '' '' = []"
  by code_simp

lemma demo_libraryName:
  "libraryName (self (demoState (demoTarget [] precise libs client))) lib = Name lib"
  by (simp add: libraryName_def demoState_def demoTarget_def TrimSpace_empty)


lemma demo_run_failing_scan:
  "emitted (demoState (demoTarget [] False demoLibraries
            (demoClient (''view1'', None) (''42'', None) None (Some (Error ''scan refused'')))))
          demoEvent =
     [Log TraceLevel
        [Str ''target'' ''jellyfin'', Str ''url'' ''http://jellyfin'',
         Str ''path'' ''/data/movies/Inception'', Str ''library'' ''Movies'']
        ''Sending library scan request (fallback or precise_refresh disabled)'',
      CallScan ''/data/movies/Inception'' (Some (Error ''scan refused''))]"
  by (simp add: emitted_def Scan_def Let_def demo_rewrite demo_library demo_precise
      fallbackScan_run)
    (simp add: demoState_def demoTarget_def demoClient_def)

section \<open>The claims\<close>

text \<open>
  C1. \<open>Scan\<close> returns the error \<open>e\<close> if and only if the run called \<open>api.Scan\<close> on the
  rewritten path and that call returned \<open>e\<close>. No resolution miss and no failure of
  \<open>GetViewID\<close>, \<open>FindItemIDByPath\<close> or \<open>RefreshItem\<close> comes out of \<open>Scan\<close>.
\<close>

theorem Scan_error_iff:
  "fst (Scan s ev) = Some e \<longleftrightarrow>
     CallScan (rewrite (self s) (Folder ev)) (Some e) \<in> set (emitted s ev)"
proof -
  obtain es where es: "trace (snd (Scan s ev)) = trace s @ es"
    and shape: "list_all quietEvent es \<and> fst (Scan s ev) = None \<or>
         (\<exists>es' tl. es = es' @ CallScan (rewrite (self s) (Folder ev)) (fst (Scan s ev)) # tl \<and>
            list_all quietEvent es' \<and> list_all quietEvent tl)"
    using Scan_frame [of s ev] by blast
  have em: "emitted s ev = es"
    using es by (simp add: emitted_def)
  from shape show ?thesis
  proof
    assume "list_all quietEvent es \<and> fst (Scan s ev) = None"
    then show ?thesis
      unfolding em using quiet_no_Scan by auto
  next
    assume "\<exists>es' tl. es = es' @ CallScan (rewrite (self s) (Folder ev)) (fst (Scan s ev)) # tl \<and>
            list_all quietEvent es' \<and> list_all quietEvent tl"
    then obtain es' tl where
      "es = es' @ CallScan (rewrite (self s) (Folder ev)) (fst (Scan s ev)) # tl"
      "list_all quietEvent es'" "list_all quietEvent tl"
      by blast
    then show ?thesis
      unfolding em using quiet_no_Scan [of es'] quiet_no_Scan [of tl] by auto
  qed
qed

text \<open>
  With precise refresh off and a failing \<open>api.Scan\<close>, its error is the result; with precise
  refresh on and every step succeeding, \<open>api.Scan\<close> is not called and the same client's
  error is not the result.
\<close>

theorem Scan_error_iff_witness:
  "fst (Scan (demoState (demoTarget [] False demoLibraries
            (demoClient (''view1'', None) (''42'', None) None (Some (Error ''scan refused'')))))
          demoEvent) = Some (Error ''scan refused'') \<and>
   fst (Scan (demoState (demoTarget [] True demoLibraries
            (demoClient (''view1'', None) (''42'', None) None (Some (Error ''scan refused'')))))
          demoEvent) \<noteq> Some (Error ''scan refused'')"
proof -
  let ?s = "demoState (demoTarget [] False demoLibraries
            (demoClient (''view1'', None) (''42'', None) None (Some (Error ''scan refused''))))"
  let ?s' = "demoState (demoTarget [] True demoLibraries
            (demoClient (''view1'', None) (''42'', None) None (Some (Error ''scan refused''))))"
  have "CallScan (rewrite (self ?s) (Folder demoEvent)) (Some (Error ''scan refused''))
      \<in> set (emitted ?s demoEvent)"
    by (simp add: demo_run_failing_scan demo_rewrite)
  then have a: "fst (Scan ?s demoEvent) = Some (Error ''scan refused'')"
    using Scan_error_iff [of ?s demoEvent "Error ''scan refused''"] by simp
  have "emitted ?s' demoEvent =
     [Log TraceLevel
        [Str ''target'' ''jellyfin'', Str ''url'' ''http://jellyfin'',
         Str ''path'' ''/data/movies/Inception'', Str ''library'' ''Movies'']
        ''Trying precise Jellyfin refresh by itemId'',
      CallGetViewID ''u1'' ''Movies'' (''view1'', None),
      CallFindItemIDByPath ''u1'' ''view1'' ''/data/movies/Inception'' (''42'', None),
      CallRefreshItem ''42'' None,
      Log InfoLevel
        [Str ''target'' ''jellyfin'', Str ''url'' ''http://jellyfin'',
         Str ''path'' ''/data/movies/Inception'', Str ''library'' ''Movies'',
         Str ''itemId'' ''42'']
        ''Refreshed Jellyfin item recursively (precise refresh)'']"
    by (simp add: emitted_def Scan_def Let_def demo_rewrite demo_library demo_precise
        preciseRefresh_def demo_libraryName demo_user)
      (simp add: steps demoState_def demoTarget_def demoClient_def TrimSpace_42)
  then have "CallScan (rewrite (self ?s') (Folder demoEvent)) (Some (Error ''scan refused''))
      \<notin> set (emitted ?s' demoEvent)"
    by simp
  then have b: "fst (Scan ?s' demoEvent) \<noteq> Some (Error ''scan refused'')"
    using Scan_error_iff [of ?s' demoEvent "Error ''scan refused''"] by simp
  show ?thesis using a b by simp
qed

text \<open>
  C2. The resolver returns the first library, in the order of the list, whose root path is
  a string prefix of the folder: \<open>Inr l\<close> exactly when \<open>l\<close> stands at an index \<open>i\<close> of the
  list, its path is a prefix of the folder and no library at an earlier index has a path
  that is a prefix. It fails (the NoMatchingLibrary condition, the error
  "<folder>: failed determining library") exactly when no library's path is a prefix. So
  with several matching roots the earliest wins, whatever their lengths.
\<close>

theorem getScanLibrary_first_match:
  "(getScanLibrary t p = Inr l \<longleftrightarrow>
      (\<exists>i<length (libraries t). libraries t ! i = l \<and> prefix (Path l) p \<and>
         (\<forall>j<i. \<not> prefix (Path (libraries t ! j)) p))) \<and>
   (getScanLibrary t p = Inl e \<longleftrightarrow>
      (\<forall>l\<in>set (libraries t). \<not> prefix (Path l) p) \<and>
      e = Error (p @ '': failed determining library''))"
  using getScanLibrary_Inr_iff [of t p l] getScanLibrary_Inl_iff [of t p e] by simp

text \<open>
  The nested roots \<open>/data\<close> and \<open>/data/tv\<close>, in this order: \<open>/data/tv/show\<close> resolves to
  the first, not to the longer match; \<open>/srv/music/x\<close> resolves to nothing.
\<close>

theorem getScanLibrary_first_match_witness:
  "getScanLibrary (demoTarget [] False nestedLibraries
       (demoClient (''view1'', None) (''42'', None) None None)) ''/data/tv/show'' =
     Inr \<lparr>Name = ''All'', Path = ''/data''\<rparr> \<and>
   prefix ''/data/tv'' ''/data/tv/show'' \<and>
   getScanLibrary (demoTarget [] False nestedLibraries
       (demoClient (''view1'', None) (''42'', None) None None)) ''/srv/music/x'' =
     Inl (Error ''/srv/music/x: failed determining library'')"
proof -
  let ?t = "demoTarget [] False nestedLibraries
       (demoClient (''view1'', None) (''42'', None) None None)"
  have libs: "libraries ?t = [\<lparr>Name = ''All'', Path = ''/data''\<rparr>, \<lparr>Name = ''TV'', Path = ''/data/tv''\<rparr>]"
    by (simp add: demoTarget_def nestedLibraries_def)
  have "0 < length (libraries ?t) \<and> libraries ?t ! 0 = \<lparr>Name = ''All'', Path = ''/data''\<rparr> \<and>
      prefix (Path \<lparr>Name = ''All'', Path = ''/data''\<rparr>) ''/data/tv/show'' \<and>
      (\<forall>j<0. \<not> prefix (Path (libraries ?t ! j)) ''/data/tv/show'')"
    unfolding libs by simp
  then have "\<exists>i<length (libraries ?t). libraries ?t ! i = \<lparr>Name = ''All'', Path = ''/data''\<rparr> \<and>
      prefix (Path \<lparr>Name = ''All'', Path = ''/data''\<rparr>) ''/data/tv/show'' \<and>
      (\<forall>j<i. \<not> prefix (Path (libraries ?t ! j)) ''/data/tv/show'')"
    by blast
  then have a: "getScanLibrary ?t ''/data/tv/show'' = Inr \<lparr>Name = ''All'', Path = ''/data''\<rparr>"
    using getScanLibrary_first_match [of ?t "''/data/tv/show''" "\<lparr>Name = ''All'', Path = ''/data''\<rparr>"]
    by blast
  have "\<forall>l\<in>set (libraries ?t). \<not> prefix (Path l) ''/srv/music/x''"
    unfolding libs by simp
  then have b: "getScanLibrary ?t ''/srv/music/x'' = Inl (Error ''/srv/music/x: failed determining library'')"
    using getScanLibrary_first_match [of ?t "''/srv/music/x''" _
        "Error ''/srv/music/x: failed determining library''"]
    by simp
  show ?thesis using a b by simp
qed



text \<open>
  C4. With precise refresh on, when \<open>GetViewID\<close> succeeds, \<open>FindItemIDByPath\<close> succeeds
  with an identifier that is not blank, and \<open>RefreshItem\<close> of that identifier succeeds,
  \<open>Scan\<close> returns \<open>nil\<close> and the API calls of the run are exactly these three: \<open>api.Scan\<close>
  is called zero times.
\<close>

theorem Scan_precise_success:
  assumes "getScanLibrary (self s) (rewrite (self s) (Folder ev)) = Inr lib"
    and "PreciseRefresh (cfg (self s))"
    and "api_GetViewID (api (self s)) (UserID (cfg (self s))) (libraryName (self s) lib) (remote s) =
           ((viewID, None), w1)"
    and "api_FindItemIDByPath (api (self s)) (UserID (cfg (self s))) viewID
           (rewrite (self s) (Folder ev)) w1 = ((itemID, None), w2)"
    and "TrimSpace itemID \<noteq> []"
    and "api_RefreshItem (api (self s)) itemID w2 = (None, w3)"
  shows "fst (Scan s ev) = None \<and>
         calls (emitted s ev) =
           [CallGetViewID (UserID (cfg (self s))) (libraryName (self s) lib) (viewID, None),
            CallFindItemIDByPath (UserID (cfg (self s))) viewID (rewrite (self s) (Folder ev))
              (itemID, None),
            CallRefreshItem itemID None]"
  using assms
  by (simp add: Scan_def Let_def preciseRefresh_def emitted_def calls_def steps)

theorem Scan_precise_success_witness:
  "fst (Scan (demoState (demoTarget [] True demoLibraries
            (demoClient (''view1'', None) (''42'', None) None None))) demoEvent) = None \<and>
   calls (emitted (demoState (demoTarget [] True demoLibraries
            (demoClient (''view1'', None) (''42'', None) None None))) demoEvent) =
     [CallGetViewID ''u1'' ''Movies'' (''view1'', None),
      CallFindItemIDByPath ''u1'' ''view1'' ''/data/movies/Inception'' (''42'', None),
      CallRefreshItem ''42'' None]"
proof -
  let ?s = "demoState (demoTarget [] True demoLibraries
            (demoClient (''view1'', None) (''42'', None) None None))"
  let ?lib = "\<lparr>Name = ''Movies'', Path = ''/data/movies''\<rparr>"
  have a: "getScanLibrary (self ?s) (rewrite (self ?s) (Folder demoEvent)) = Inr ?lib"
    by (simp add: demo_rewrite demo_library)
  have b: "PreciseRefresh (cfg (self ?s))"
    by (simp add: demo_precise)
  have c: "api_GetViewID (api (self ?s)) (UserID (cfg (self ?s))) (libraryName (self ?s) ?lib)
      (remote ?s) = ((''view1'', None), 1)"
    by (simp add: demoState_def demoTarget_def demoClient_def)
  have d: "api_FindItemIDByPath (api (self ?s)) (UserID (cfg (self ?s))) ''view1''
      (rewrite (self ?s) (Folder demoEvent)) 1 = ((''42'', None), 2)"
    by (simp add: demoState_def demoTarget_def demoClient_def)
  have e: "TrimSpace ''42'' \<noteq> []"
    by (simp add: TrimSpace_42)
  have f: "api_RefreshItem (api (self ?s)) ''42'' 2 = (None, 3)"
    by (simp add: demoState_def demoTarget_def demoClient_def)
  from Scan_precise_success [OF a b c d e f] show ?thesis
    by (simp add: demo_rewrite demo_user demo_libraryName)
qed

text \<open>
  C5. With precise refresh on, when \<open>GetViewID\<close> and \<open>FindItemIDByPath\<close> succeed but the
  identifier is empty or all white space, the run goes on to \<open>api.Scan\<close> on the rewritten
  path and returns its result; \<open>RefreshItem\<close> is not called.
\<close>

theorem Scan_blank_item:
  assumes "getScanLibrary (self s) (rewrite (self s) (Folder ev)) = Inr lib"
    and "PreciseRefresh (cfg (self s))"
    and "api_GetViewID (api (self s)) (UserID (cfg (self s))) (libraryName (self s) lib) (remote s) =
           ((viewID, None), w1)"
    and "api_FindItemIDByPath (api (self s)) (UserID (cfg (self s))) viewID
           (rewrite (self s) (Folder ev)) w1 = ((itemID, None), w2)"
    and "TrimSpace itemID = []"
  shows "fst (Scan s ev) = fst (api_Scan (api (self s)) (rewrite (self s) (Folder ev)) w2) \<and>
         calls (emitted s ev) =
           [CallGetViewID (UserID (cfg (self s))) (libraryName (self s) lib) (viewID, None),
            CallFindItemIDByPath (UserID (cfg (self s))) viewID (rewrite (self s) (Folder ev))
              (itemID, None),
            CallScan (rewrite (self s) (Folder ev))
              (fst (api_Scan (api (self s)) (rewrite (self s) (Folder ev)) w2))]"
  using assms
  by (simp add: Scan_def Let_def preciseRefresh_def emitted_def calls_def steps fallbackScan_run
      split: option.splits)

theorem Scan_blank_item_witness:
  "fst (Scan (demoState (demoTarget [] True demoLibraries
            (demoClient (''view1'', None) ('' '', None) None (Some (Error ''scan refused'')))))
          demoEvent) = Some (Error ''scan refused'') \<and>
   calls (emitted (demoState (demoTarget [] True demoLibraries
            (demoClient (''view1'', None) ('' '', None) None (Some (Error ''scan refused'')))))
          demoEvent) =
     [CallGetViewID ''u1'' ''Movies'' (''view1'', None),
      CallFindItemIDByPath ''u1'' ''view1'' ''/data/movies/Inception'' ('' '', None),
      CallScan ''/data/movies/Inception'' (Some (Error ''scan refused''))]"
proof -
  let ?s = "demoState (demoTarget [] True demoLibraries
            (demoClient (''view1'', None) ('' '', None) None (Some (Error ''scan refused''))))"
  let ?lib = "\<lparr>Name = ''Movies'', Path = ''/data/movies''\<rparr>"
  have a: "getScanLibrary (self ?s) (rewrite (self ?s) (Folder demoEvent)) = Inr ?lib"
    by (simp add: demo_rewrite demo_library)
  have b: "PreciseRefresh (cfg (self ?s))"
    by (simp add: demo_precise)
  have c: "api_GetViewID (api (self ?s)) (UserID (cfg (self ?s))) (libraryName (self ?s) ?lib)
      (remote ?s) = ((''view1'', None), 1)"
    by (simp add: demoState_def demoTarget_def demoClient_def)
  have d: "api_FindItemIDByPath (api (self ?s)) (UserID (cfg (self ?s))) ''view1''
      (rewrite (self ?s) (Folder demoEvent)) 1 = (('' '', None), 2)"
    by (simp add: demoState_def demoTarget_def demoClient_def)
  have e: "TrimSpace '' '' = []"
    by (rule TrimSpace_blank)
  have f: "api_Scan (api (self ?s)) ''/data/movies/Inception'' 2 = (Some (Error ''scan refused''), 3)"
    by (simp add: demoState_def demoTarget_def demoClient_def)
  from Scan_blank_item [OF a b c d e] show ?thesis
    by (simp add: demo_rewrite demo_user demo_libraryName f)
qed

text \<open>
  C6. With precise refresh on, when the run reaches \<open>RefreshItem\<close> and it fails, there
  follows exactly one \<open>api.Scan\<close> on the rewritten path, and \<open>Scan\<close> returns the result of
  that call, whatever the error of \<open>RefreshItem\<close> was.
\<close>

theorem Scan_refresh_failed:
  assumes "getScanLibrary (self s) (rewrite (self s) (Folder ev)) = Inr lib"
    and "PreciseRefresh (cfg (self s))"
    and "api_GetViewID (api (self s)) (UserID (cfg (self s))) (libraryName (self s) lib) (remote s) =
           ((viewID, None), w1)"
    and "api_FindItemIDByPath (api (self s)) (UserID (cfg (self s))) viewID
           (rewrite (self s) (Folder ev)) w1 = ((itemID, None), w2)"
    and "TrimSpace itemID \<noteq> []"
    and "api_RefreshItem (api (self s)) itemID w2 = (Some rErr, w3)"
  shows "fst (Scan s ev) = fst (api_Scan (api (self s)) (rewrite (self s) (Folder ev)) w3) \<and>
         calls (emitted s ev) =
           [CallGetViewID (UserID (cfg (self s))) (libraryName (self s) lib) (viewID, None),
            CallFindItemIDByPath (UserID (cfg (self s))) viewID (rewrite (self s) (Folder ev))
              (itemID, None),
            CallRefreshItem itemID (Some rErr),
            CallScan (rewrite (self s) (Folder ev))
              (fst (api_Scan (api (self s)) (rewrite (self s) (Folder ev)) w3))]"
  using assms
  by (simp add: Scan_def Let_def preciseRefresh_def emitted_def calls_def steps fallbackScan_run
      split: option.splits)

theorem Scan_refresh_failed_witness:
  "fst (Scan (demoState (demoTarget [] True demoLibraries
            (demoClient (''view1'', None) (''42'', None) (Some (Error ''refresh refused'')) None)))
          demoEvent) = None \<and>
   calls (emitted (demoState (demoTarget [] True demoLibraries
            (demoClient (''view1'', None) (''42'', None) (Some (Error ''refresh refused'')) None)))
          demoEvent) =
     [CallGetViewID ''u1'' ''Movies'' (''view1'', None),
      CallFindItemIDByPath ''u1'' ''view1'' ''/data/movies/Inception'' (''42'', None),
      CallRefreshItem ''42'' (Some (Error ''refresh refused'')),
      CallScan ''/data/movies/Inception'' None]"
proof -
  let ?s = "demoState (demoTarget [] True demoLibraries
            (demoClient (''view1'', None) (''42'', None) (Some (Error ''refresh refused'')) None))"
  let ?lib = "\<lparr>Name = ''Movies'', Path = ''/data/movies''\<rparr>"
  have a: "getScanLibrary (self ?s) (rewrite (self ?s) (Folder demoEvent)) = Inr ?lib"
    by (simp add: demo_rewrite demo_library)
  have b: "PreciseRefresh (cfg (self ?s))"
    by (simp add: demo_precise)
  have c: "api_GetViewID (api (self ?s)) (UserID (cfg (self ?s))) (libraryName (self ?s) ?lib)
      (remote ?s) = ((''view1'', None), 1)"
    by (simp add: demoState_def demoTarget_def demoClient_def)
  have d: "api_FindItemIDByPath (api (self ?s)) (UserID (cfg (self ?s))) ''view1''
      (rewrite (self ?s) (Folder demoEvent)) 1 = ((''42'', None), 2)"
    by (simp add: demoState_def demoTarget_def demoClient_def)
  have e: "TrimSpace ''42'' \<noteq> []"
    by (simp add: TrimSpace_42)
  have f: "api_RefreshItem (api (self ?s)) ''42'' 2 = (Some (Error ''refresh refused''), 3)"
    by (simp add: demoState_def demoTarget_def demoClient_def)
  have g: "api_Scan (api (self ?s)) ''/data/movies/Inception'' 3 = (None, 4)"
    by (simp add: demoState_def demoTarget_def demoClient_def)
  from Scan_refresh_failed [OF a b c d e f] show ?thesis
    by (simp add: demo_rewrite demo_user demo_libraryName g)
qed

text \<open>
  C7. When no library root is a prefix of the rewritten path, \<open>Scan\<close> returns \<open>nil\<close> and
  makes no call of the remote API at all; the remote state is untouched and the only
  event is the warning.
\<close>

theorem Scan_no_library:
  assumes "\<forall>l\<in>set (libraries (self s)). \<not> prefix (Path l) (rewrite (self s) (Folder ev))"
  shows "fst (Scan s ev) = None \<and> calls (emitted s ev) = [] \<and>
         remote (snd (Scan s ev)) = remote s \<and>
         emitted s ev =
           [Log WarnLevel
              (log (self s) @
               [Err (Error (rewrite (self s) (Folder ev) @ '': failed determining library''))])
              ''No target libraries found'']"
proof -
  have "getScanLibrary (self s) (rewrite (self s) (Folder ev)) =
      Inl (Error (rewrite (self s) (Folder ev) @ '': failed determining library''))"
    using assms by (simp add: getScanLibrary_Inl_iff)
  then show ?thesis
    by (simp add: Scan_def Let_def emitted_def calls_def logMsg_def)
qed

theorem Scan_no_library_witness:
  "fst (Scan (demoState (demoTarget [] True demoLibraries
            (demoClient (''view1'', None) (''42'', None) None None)))
          \<lparr>Folder = ''/mnt/media/music/x''\<rparr>) = None \<and>
   calls (emitted (demoState (demoTarget [] True demoLibraries
            (demoClient (''view1'', None) (''42'', None) None None)))
          \<lparr>Folder = ''/mnt/media/music/x''\<rparr>) = [] \<and>
   remote (snd (Scan (demoState (demoTarget [] True demoLibraries
            (demoClient (''view1'', None) (''42'', None) None None)))
          \<lparr>Folder = ''/mnt/media/music/x''\<rparr>)) = 0"
proof -
  let ?s = "demoState (demoTarget [] True demoLibraries
            (demoClient (''view1'', None) (''42'', None) None None))"
  let ?ev = "\<lparr>Folder = ''/mnt/media/music/x''\<rparr>"
  have r: "rewrite (self ?s) (Folder ?ev) = ''/data/music/x''"
    by (simp add: demoState_def demoTarget_def demoRewrite_def HasPrefix_def)
  have a: "\<forall>l\<in>set (libraries (self ?s)). \<not> prefix (Path l) (rewrite (self ?s) (Folder ?ev))"
    unfolding r by (simp add: demoState_def demoTarget_def demoLibraries_def)
  from Scan_no_library [OF a] show ?thesis
    by (simp add: demoState_def calls_def)
qed




text \<open>
  C9. An invocation of \<open>Scan\<close> leaves the adapter instance as it was, and so does any
  sequence of invocations: configuration, library list, logger, rewriter and API-client
  handle are the fields of \<open>self\<close>. Resolution after any number of events is resolution
  against the list the instance was constructed with, and no run calls \<open>Libraries\<close> again.
\<close>

theorem Scan_adapter_unchanged:
  "self (snd (Scan s ev)) = self s \<and>
   self (ScanAll s evs) = self s \<and>
   getScanLibrary (self (ScanAll s evs)) p = getScanLibrary (self s) p \<and>
   (\<forall>r. CallLibraries r \<notin> set (drop (length (trace s)) (trace (ScanAll s evs))))"
proof -
  obtain es where "self (ScanAll s evs) = self s" "trace (ScanAll s evs) = trace s @ es"
    "\<forall>r. CallLibraries r \<notin> set es"
    using ScanAll_frame [of s evs] by blast
  then show ?thesis
    by (simp add: Scan_self)
qed

text \<open>
  C10. Resolution compares raw string prefixes and checks no path-component boundary:
  with the library root \<open>/data/tv\<close> the folder \<open>/data/tvshows/x\<close> resolves to that library,
  although the root does not end at a path separator of the folder.
\<close>

theorem getScanLibrary_no_boundary_check:
  "getScanLibrary (demoTarget [] False demoLibraries
       (demoClient (''view1'', None) (''42'', None) None None)) ''/data/tvshows/x'' =
     Inr \<lparr>Name = ''TV'', Path = ''/data/tv''\<rparr> \<and>
   prefix ''/data/tv'' ''/data/tvshows/x'' \<and>
   ''/data/tvshows/x'' ! length ''/data/tv'' \<noteq> CHR ''/'' \<and>
   last ''/data/tv'' \<noteq> CHR ''/''"
  by (simp add: getScanLibrary_def demoTarget_def demoLibraries_def HasPrefix_def)

end
